theory Spec2Isabelle
  imports Main
begin

section \<open>Python values used by the orchestration layer\<close>

subsection \<open>Dictionaries\<close>

text \<open>
  A Python \<open>dict\<close> keeps its keys in insertion order, and the router and the registry
  iterate over their dictionaries (\<open>items()\<close>, \<open>values()\<close>, \<open>keys()\<close>). A dictionary
  is therefore an association list in insertion order: \<open>d[k] = v\<close> replaces the value
  of an existing key where it stands and appends a new key at the end, \<open>del d[k]\<close>
  removes the key.
\<close>

type_synonym ('k, 'v) pydict = "('k \<times> 'v) list"

fun dict_get :: "('k, 'v) pydict \<Rightarrow> 'k \<Rightarrow> 'v option" where
  "dict_get [] k = None"
| "dict_get ((k', v) # d) k = (if k' = k then Some v else dict_get d k)"

definition dict_mem :: "'k \<Rightarrow> ('k, 'v) pydict \<Rightarrow> bool" where
  "dict_mem k d = (dict_get d k \<noteq> None)"

fun dict_set :: "('k, 'v) pydict \<Rightarrow> 'k \<Rightarrow> 'v \<Rightarrow> ('k, 'v) pydict" where
  "dict_set [] k v = [(k, v)]"
| "dict_set ((k', v') # d) k v =
     (if k' = k then (k, v) # d else (k', v') # dict_set d k v)"

fun dict_del :: "('k, 'v) pydict \<Rightarrow> 'k \<Rightarrow> ('k, 'v) pydict" where
  "dict_del [] k = []"
| "dict_del ((k', v') # d) k = (if k' = k then dict_del d k else (k', v') # dict_del d k)"

definition dict_keys :: "('k, 'v) pydict \<Rightarrow> 'k list" where
  "dict_keys d = map fst d"

definition dict_values :: "('k, 'v) pydict \<Rightarrow> 'v list" where
  "dict_values d = map snd d"

subsection \<open>Slices\<close>

text \<open>\<open>xs[i:]\<close>: a negative start counts from the end, and the start is clamped to the list.\<close>

definition slice_from :: "'a list \<Rightarrow> int \<Rightarrow> 'a list" where
  "slice_from xs i =
     (let n = int (length xs);
          s = (if i < 0 then max (n + i) 0 else min i n)
      in drop (nat s) xs)"

subsection \<open>Strings\<close>

text \<open>
  Text is a list of characters; a character outside ASCII stands as the bytes of its
  UTF-8 encoding. No byte of an ASCII character occurs inside the encoding of another
  character, so for an ASCII keyword the test \<open>k in s\<close> is the same on the characters and
  on the bytes. \<open>contains k s\<close> is that test: \<open>k\<close> occurs in \<open>s\<close> as a contiguous run.
\<close>

fun starts_with :: "string \<Rightarrow> string \<Rightarrow> bool" where
  "starts_with s [] = True"
| "starts_with [] (k # ks) = False"
| "starts_with (c # cs) (k # ks) = (c = k \<and> starts_with cs ks)"

fun contains :: "string \<Rightarrow> string \<Rightarrow> bool" where
  "contains k [] = (k = [])"
| "contains k (c # cs) = (starts_with (c # cs) k \<or> contains k cs)"

subsection \<open>Exceptions, the clock and the console\<close>

text \<open>
  An exception is a value; \<open>str_exn\<close> is \<open>str(e)\<close>, its message. \<open>ValueError\<close> and
  \<open>Exception\<close> are the two classes the code raises itself, \<open>OtherError\<close> stands for
  any other subclass of \<open>Exception\<close> raised by a collaborator.
\<close>

datatype exn = ValueError string | Exception string | OtherError string

fun str_exn :: "exn \<Rightarrow> string" where
  "str_exn (ValueError m) = m"
| "str_exn (Exception m) = m"
| "str_exn (OtherError m) = m"

text \<open>
  The effects of the code are kept in a \<open>world\<close>: how many times the clock has been read,
  the lines printed, and the envelopes handed to the transport. A clock reading is a
  number; the \<open>n\<close>-th call of \<open>datetime.now()\<close> returns \<open>clk env n\<close>. Records store the
  reading itself where the code stores its \<open>isoformat()\<close> or \<open>timestamp()\<close> rendering.
\<close>

record agent_card =
  card_agent_id :: string
  card_name :: string
  card_description :: string
  card_capabilities :: "string list"
  card_endpoints :: "(string, string) pydict"
  card_authentication :: "(string, string) pydict"
  card_metadata :: "(string, string) pydict"

record history_entry =
  entry_role :: string
  entry_content :: string
  entry_timestamp :: nat

record task =
  task_type :: "string option"
  task_message :: string
  task_user_id :: string
  task_capabilities :: "string list option"
  task_context :: "(string, string) pydict"
  task_conversation_history :: "history_entry list"
  task_timestamp :: nat

datatype payload = TaskPayload task | StatusPayload "(string, string) pydict"

record message =
  msg_from :: string
  msg_to :: "string option"
  msg_type :: string
  msg_payload :: payload
  msg_timestamp :: nat
  msg_message_id :: "(string \<times> string \<times> nat) option"

record delivery_result =
  res_status :: string
  res_response :: string
  res_timestamp :: nat

record world =
  ticks :: nat
  stdout :: "string list"
  sent :: "(agent_card \<times> message) list"

text \<open>
  The environment holds what the code takes from outside: the clock, the transport's
  failures (\<open>fails card msg = Some e\<close> when handing \<open>msg\<close> for \<open>card\<close> to the transport
  raises \<open>e\<close>; the transport shipped with the code never raises, which is
  \<open>fails = (\<lambda>c m. None)\<close>), \<open>str()\<close> of a delivery result, and \<open>str.lower()\<close>, which
  follows the Unicode character database of the interpreter and not a table of the
  repository.
\<close>

record env =
  clk :: "nat \<Rightarrow> nat"
  fails :: "agent_card \<Rightarrow> message \<Rightarrow> exn option"
  str_result :: "delivery_result \<Rightarrow> string"
  str_lower :: "string \<Rightarrow> string"

definition now :: "env \<Rightarrow> world \<Rightarrow> nat \<times> world" where
  "now e w = (clk e (ticks w), w\<lparr>ticks := Suc (ticks w)\<rparr>)"

definition print :: "string \<Rightarrow> world \<Rightarrow> world" where
  "print s w = w\<lparr>stdout := stdout w @ [s]\<rparr>"

section \<open>\<open>a2a_protocol/agent_registry.py\<close>\<close>

record agent_registry =
  reg_agents :: "(string, agent_card) pydict"

definition register_agent :: "agent_registry \<Rightarrow> agent_card \<Rightarrow> world \<Rightarrow> agent_registry \<times> world" where
  "register_agent reg a_card w =
     (reg\<lparr>reg_agents := dict_set (reg_agents reg) (card_agent_id a_card) a_card\<rparr>,
      print (''Registered agent: '' @ card_name a_card @ '' ('' @ card_agent_id a_card @ '')'') w)"

definition discover_agents :: "agent_registry \<Rightarrow> string \<Rightarrow> agent_card list" where
  "discover_agents reg capability =
     filter (\<lambda>agent. capability \<in> set (card_capabilities agent)) (dict_values (reg_agents reg))"

definition get_agent :: "agent_registry \<Rightarrow> string \<Rightarrow> agent_card option" where
  "get_agent reg agent_id = dict_get (reg_agents reg) agent_id"

definition unregister_agent :: "agent_registry \<Rightarrow> string \<Rightarrow> world \<Rightarrow> agent_registry \<times> world" where
  "unregister_agent reg agent_id w =
     (if dict_mem agent_id (reg_agents reg)
      then (reg\<lparr>reg_agents := dict_del (reg_agents reg) agent_id\<rparr>,
            print (''Unregistered agent: '' @ agent_id) w)
      else (reg, w))"

section \<open>\<open>a2a_protocol/communication.py\<close>\<close>

record a2a_client =
  client_agent_id :: string
  registry :: agent_registry
  status_listeners :: "(string, bool) pydict"
  message_queue :: "message list"

text \<open>
  \<open>_send_message\<close> is where an envelope is handed to the transport. The world records
  the hand-over in \<open>sent\<close>; then the transport either raises or the code builds its
  response, reading the clock once.
\<close>

definition send_message :: "env \<Rightarrow> agent_card \<Rightarrow> message \<Rightarrow> world \<Rightarrow> (exn + delivery_result) \<times> world" where
  "send_message e target_card msg w =
     (let w1 = w\<lparr>sent := sent w @ [(target_card, msg)]\<rparr> in
      case fails e target_card msg of
        Some err \<Rightarrow> (Inl err, w1)
      | None \<Rightarrow>
          (let (t, w2) = now e w1 in
           (Inr \<lparr>res_status = ''delivered'',
                 res_response = ''Message delivered to '' @ card_agent_id target_card,
                 res_timestamp = t\<rparr>, w2)))"

definition task_delegation_message :: "a2a_client \<Rightarrow> string \<Rightarrow> task \<Rightarrow> nat \<Rightarrow> nat \<Rightarrow> message" where
  "task_delegation_message c target_agent tsk t1 t2 =
     \<lparr>msg_from = client_agent_id c,
      msg_to = Some target_agent,
      msg_type = ''task_delegation'',
      msg_payload = TaskPayload tsk,
      msg_timestamp = t1,
      msg_message_id = Some (client_agent_id c, target_agent, t2)\<rparr>"

definition delegate_task :: "env \<Rightarrow> a2a_client \<Rightarrow> string \<Rightarrow> task \<Rightarrow> world \<Rightarrow> (exn + delivery_result) \<times> world" where
  "delegate_task e c target_agent tsk w =
     (case get_agent (registry c) target_agent of
        None \<Rightarrow> (Inl (ValueError (''Agent '' @ target_agent @ '' not found in registry'')), w)
      | Some target_card \<Rightarrow>
          (let (t1, w1) = now e w;
               (t2, w2) = now e w1;
               msg = task_delegation_message c target_agent tsk t1 t2
           in case send_message e target_card msg w2 of
                (Inr result, w3) \<Rightarrow> (Inr result, w3)
              | (Inl err, w3) \<Rightarrow>
                  (Inl (Exception (''Failed to delegate task to '' @ target_agent @ '': '' @ str_exn err)), w3)))"

definition status_update_message :: "a2a_client \<Rightarrow> (string, string) pydict \<Rightarrow> nat \<Rightarrow> message" where
  "status_update_message c status t =
     \<lparr>msg_from = client_agent_id c,
      msg_to = None,
      msg_type = ''status_update'',
      msg_payload = StatusPayload status,
      msg_timestamp = t,
      msg_message_id = None\<rparr>"

definition send_status_update :: "env \<Rightarrow> a2a_client \<Rightarrow> string \<Rightarrow> message \<Rightarrow> world \<Rightarrow> (exn + unit) \<times> world" where
  "send_status_update e c target_agent msg w =
     (case get_agent (registry c) target_agent of
        Some target_card \<Rightarrow>
          (case send_message e target_card msg w of
             (Inr result, w1) \<Rightarrow> (Inr (), w1)
           | (Inl err, w1) \<Rightarrow> (Inl err, w1))
      | None \<Rightarrow> (Inr (), w))"

text \<open>The \<open>for\<close> loop of \<open>broadcast_status\<close>, with its \<open>try\<close>/\<open>except\<close> around each send.\<close>

fun broadcast_loop :: "env \<Rightarrow> a2a_client \<Rightarrow> message \<Rightarrow> string list \<Rightarrow> world \<Rightarrow> (exn + unit) \<times> world" where
  "broadcast_loop e c msg [] w = (Inr (), w)"
| "broadcast_loop e c msg (listener_id # rest) w =
     (case send_status_update e c listener_id msg w of
        (Inr u, w1) \<Rightarrow> broadcast_loop e c msg rest w1
      | (Inl err, w1) \<Rightarrow>
          broadcast_loop e c msg rest
            (print (''Failed to send status to '' @ listener_id @ '': '' @ str_exn err) w1))"

definition broadcast_status :: "env \<Rightarrow> a2a_client \<Rightarrow> (string, string) pydict \<Rightarrow> world \<Rightarrow> (exn + unit) \<times> world" where
  "broadcast_status e c status w =
     (let (t, w1) = now e w;
          msg = status_update_message c status t
      in broadcast_loop e c msg (dict_keys (status_listeners c)) w1)"

definition subscribe_to_status :: "a2a_client \<Rightarrow> string \<Rightarrow> world \<Rightarrow> a2a_client \<times> world" where
  "subscribe_to_status c agent_id w =
     (c\<lparr>status_listeners := dict_set (status_listeners c) agent_id True\<rparr>,
      print (''Subscribed to status updates from '' @ agent_id) w)"

definition unsubscribe_from_status :: "a2a_client \<Rightarrow> string \<Rightarrow> world \<Rightarrow> a2a_client \<times> world" where
  "unsubscribe_from_status c agent_id w =
     (if dict_mem agent_id (status_listeners c)
      then (c\<lparr>status_listeners := dict_del (status_listeners c) agent_id\<rparr>,
            print (''Unsubscribed from status updates from '' @ agent_id) w)
      else (c, w))"

section \<open>\<open>orchestration/router.py\<close>\<close>

text \<open>
  A local agent handle, as far as the router looks at it: its \<open>capabilities\<close> attribute,
  which \<open>getattr\<close> reads with the default \<open>[]\<close> when the object has none, and its
  \<open>process_task\<close>, which returns a result (here already rendered as the text the
  f-string puts into the answer) or raises.
\<close>

record local_agent =
  agent_capabilities :: "string list option"
  process_task :: "task \<Rightarrow> exn + string"

record agent_router =
  a2a_client :: a2a_client
  agents :: "(string, local_agent) pydict"
  routing_rules :: "(string, string list) pydict"

definition getattr_capabilities :: "local_agent \<Rightarrow> string list" where
  "getattr_capabilities agent = (case agent_capabilities agent of Some cs \<Rightarrow> cs | None \<Rightarrow> [])"

definition agent_has_capabilities :: "local_agent \<Rightarrow> string list \<Rightarrow> bool" where
  "agent_has_capabilities agent required_capabilities =
     (if required_capabilities = [] then True
      else (let agent_caps = getattr_capabilities agent
            in list_all (\<lambda>cap. cap \<in> set agent_caps) required_capabilities))"

text \<open>The three loops of \<open>_select_best_agent\<close>; each returns at its first hit.\<close>

fun rule_scan :: "(string, local_agent) pydict \<Rightarrow> string list \<Rightarrow> string list \<Rightarrow> string option" where
  "rule_scan ags required_capabilities [] = None"
| "rule_scan ags required_capabilities (agent_id # rest) =
     (case dict_get ags agent_id of
        Some agent \<Rightarrow>
          (if agent_has_capabilities agent required_capabilities then Some agent_id
           else rule_scan ags required_capabilities rest)
      | None \<Rightarrow> rule_scan ags required_capabilities rest)"

fun local_scan :: "string list \<Rightarrow> (string, local_agent) pydict \<Rightarrow> string option" where
  "local_scan required_capabilities [] = None"
| "local_scan required_capabilities ((agent_id, agent) # rest) =
     (if agent_has_capabilities agent required_capabilities then Some agent_id
      else local_scan required_capabilities rest)"

fun external_scan :: "agent_registry \<Rightarrow> string list \<Rightarrow> string option" where
  "external_scan reg [] = None"
| "external_scan reg (capability # rest) =
     (case discover_agents reg capability of
        [] \<Rightarrow> external_scan reg rest
      | first_agent # others \<Rightarrow> Some (card_agent_id first_agent))"

definition select_best_agent :: "agent_router \<Rightarrow> string \<Rightarrow> string list \<Rightarrow> string option" where
  "select_best_agent r t_type required_capabilities =
     (case (case dict_get (routing_rules r) t_type of
              Some agent_ids \<Rightarrow> rule_scan (agents r) required_capabilities agent_ids
            | None \<Rightarrow> None) of
        Some agent_id \<Rightarrow> Some agent_id
      | None \<Rightarrow>
          (case local_scan required_capabilities (agents r) of
             Some agent_id \<Rightarrow> Some agent_id
           | None \<Rightarrow>
               (if required_capabilities \<noteq> []
                then external_scan (registry (a2a_client r)) required_capabilities
                else None)))"

definition execute_task_with_agent :: "env \<Rightarrow> agent_router \<Rightarrow> string \<Rightarrow> task \<Rightarrow> world \<Rightarrow> (exn + string) \<times> world" where
  "execute_task_with_agent e r agent_id tsk w =
     (case dict_get (agents r) agent_id of
        Some agent \<Rightarrow>
          (case process_task agent tsk of
             Inr result \<Rightarrow> (Inr (''Task completed by '' @ agent_id @ '': '' @ result), w)
           | Inl err \<Rightarrow> (Inl err, w))
      | None \<Rightarrow>
          (case delegate_task e (a2a_client r) agent_id tsk w of
             (Inr result, w1) \<Rightarrow>
               (Inr (''Task delegated to '' @ agent_id @ '': '' @ str_result e result), w1)
           | (Inl err, w1) \<Rightarrow> (Inl err, w1)))"

text \<open>
  \<open>route_task\<close> tests its selection with \<open>if not best_agent\<close>: the test holds for
  \<open>None\<close> and for the empty string.
\<close>

definition route_task :: "env \<Rightarrow> agent_router \<Rightarrow> task \<Rightarrow> world \<Rightarrow> (exn + string) \<times> world" where
  "route_task e r tsk w =
     (let t_type = (case task_type tsk of Some t \<Rightarrow> t | None \<Rightarrow> ''general'');
          required_capabilities = (case task_capabilities tsk of Some cs \<Rightarrow> cs | None \<Rightarrow> []);
          best_agent = select_best_agent r t_type required_capabilities
      in case best_agent of
           None \<Rightarrow> (Inr (''No suitable agent found for task type: '' @ t_type), w)
         | Some agent_id \<Rightarrow>
             (if agent_id = [] then (Inr (''No suitable agent found for task type: '' @ t_type), w)
              else (case execute_task_with_agent e r agent_id tsk w of
                      (Inr result, w1) \<Rightarrow> (Inr result, w1)
                    | (Inl err, w1) \<Rightarrow>
                        (Inr (''Error executing task with agent '' @ agent_id @ '': '' @ str_exn err), w1))))"

definition router_register_agent :: "agent_router \<Rightarrow> string \<Rightarrow> local_agent \<Rightarrow> world \<Rightarrow> agent_router \<times> world" where
  "router_register_agent r agent_id agent w =
     (r\<lparr>agents := dict_set (agents r) agent_id agent\<rparr>, print (''Registered agent: '' @ agent_id) w)"

definition router_unregister_agent :: "agent_router \<Rightarrow> string \<Rightarrow> world \<Rightarrow> agent_router \<times> world" where
  "router_unregister_agent r agent_id w =
     (if dict_mem agent_id (agents r)
      then (r\<lparr>agents := dict_del (agents r) agent_id\<rparr>, print (''Unregistered agent: '' @ agent_id) w)
      else (r, w))"

section \<open>\<open>orchestration/conversation_manager.py\<close>\<close>

record conv_state =
  started_at :: nat
  state_context :: "(string, string) pydict"
  preferences :: "(string, string) pydict"
  last_activity :: nat

record conversation_manager =
  router :: agent_router
  conversation_state :: "(string, conv_state) pydict"
  conversation_history :: "(string, history_entry list) pydict"
  active_sessions :: "(string, bool) pydict"

definition initialize_conversation :: "env \<Rightarrow> conversation_manager \<Rightarrow> string \<Rightarrow> world \<Rightarrow> conversation_manager \<times> world" where
  "initialize_conversation e cm user_id w =
     (let (t1, w1) = now e w;
          (t2, w2) = now e w1
      in (cm\<lparr>conversation_state :=
                dict_set (conversation_state cm) user_id
                  \<lparr>started_at = t1, state_context = [], preferences = [], last_activity = t2\<rparr>,
              conversation_history := dict_set (conversation_history cm) user_id [],
              active_sessions := dict_set (active_sessions cm) user_id True\<rparr>,
          print (''Initialized conversation for user: '' @ user_id) w2))"

definition history_of :: "conversation_manager \<Rightarrow> string \<Rightarrow> history_entry list" where
  "history_of cm user_id = (case dict_get (conversation_history cm) user_id of Some h \<Rightarrow> h | None \<Rightarrow> [])"

definition log_message :: "env \<Rightarrow> conversation_manager \<Rightarrow> string \<Rightarrow> string \<Rightarrow> string \<Rightarrow> world \<Rightarrow> conversation_manager \<times> world" where
  "log_message e cm user_id role content w =
     (let cm1 = (if \<not> dict_mem user_id (conversation_history cm)
                 then cm\<lparr>conversation_history := dict_set (conversation_history cm) user_id []\<rparr>
                 else cm);
          (t, w1) = now e w;
          entry = \<lparr>entry_role = role, entry_content = content, entry_timestamp = t\<rparr>;
          cm2 = cm1\<lparr>conversation_history :=
                      dict_set (conversation_history cm1) user_id (history_of cm1 user_id @ [entry])\<rparr>
      in case dict_get (conversation_state cm2) user_id of
           Some st \<Rightarrow>
             (let (t2, w2) = now e w1
              in (cm2\<lparr>conversation_state :=
                        dict_set (conversation_state cm2) user_id (st\<lparr>last_activity := t2\<rparr>)\<rparr>, w2))
         | None \<Rightarrow> (cm2, w1))"

definition analyze_user_message :: "env \<Rightarrow> conversation_manager \<Rightarrow> string \<Rightarrow> string \<Rightarrow> world \<Rightarrow> task \<times> world" where
  "analyze_user_message e cm user_id msg w =
     (let message_lower = str_lower e msg;
          (t_type, caps) =
            (if list_ex (\<lambda>keyword. contains keyword message_lower)
                  [''search'', ''find'', ''research'', ''look up'']
             then (''research'', [''web_search'', ''data_analysis''])
             else if list_ex (\<lambda>keyword. contains keyword message_lower)
                  [''plan'', ''schedule'', ''organize'', ''break down'']
             then (''planning'', [''task_decomposition'', ''workflow_planning''])
             else if list_ex (\<lambda>keyword. contains keyword message_lower)
                  [''analyze'', ''report'', ''summarize'']
             then (''analysis'', [''data_analysis'', ''report_generation''])
             else if list_ex (\<lambda>keyword. contains keyword message_lower)
                  [''code'', ''program'', ''implement'', ''develop'']
             then (''coding'', [''code_generation'', ''debugging''])
             else (''general'', []));
          ctx = (case dict_get (conversation_state cm) user_id of
                   Some st \<Rightarrow> state_context st
                 | None \<Rightarrow> []);
          history = slice_from (history_of cm user_id) (- 5);
          (t, w1) = now e w
      in (\<lparr>task_type = Some t_type,
           task_message = msg,
           task_user_id = user_id,
           task_capabilities = Some caps,
           task_context = ctx,
           task_conversation_history = history,
           task_timestamp = t\<rparr>, w1))"

definition process_user_input :: "env \<Rightarrow> conversation_manager \<Rightarrow> string \<Rightarrow> string \<Rightarrow> world \<Rightarrow> (exn + string) \<times> conversation_manager \<times> world" where
  "process_user_input e cm user_id msg w =
     (let (cm1, w1) = (if \<not> dict_mem user_id (conversation_state cm)
                       then initialize_conversation e cm user_id w
                       else (cm, w));
          (cm2, w2) = log_message e cm1 user_id ''user'' msg w1;
          (tsk, w3) = analyze_user_message e cm2 user_id msg w2
      in case route_task e (router cm2) tsk w3 of
           (Inl err, w4) \<Rightarrow> (Inl err, cm2, w4)
         | (Inr response, w4) \<Rightarrow>
             (let (cm3, w5) = log_message e cm2 user_id ''assistant'' response w4
              in (Inr response, cm3, w5)))"

definition get_conversation_history :: "conversation_manager \<Rightarrow> string \<Rightarrow> int option \<Rightarrow> history_entry list" where
  "get_conversation_history cm user_id limit =
     (let history = history_of cm user_id
      in case limit of
           Some n \<Rightarrow> (if n \<noteq> 0 then slice_from history (- n) else history)
         | None \<Rightarrow> history)"

section \<open>The classification table as the specification words it\<close>

text \<open>
  The specification gives classification as an ordered table of categories, each with its
  keywords and its required capabilities; a keyword matches when it occurs as a substring
  of the text once the text is put in lower case (\<open>lw\<close> is the lower-casing), and the
  first category with a matching keyword wins.
\<close>

definition occurs_ignoring_case :: "(string \<Rightarrow> string) \<Rightarrow> string \<Rightarrow> string \<Rightarrow> bool" where
  "occurs_ignoring_case lw k m = (\<exists>p q. lw m = p @ k @ q)"

definition keyword_table :: "(string \<times> string list \<times> string list) list" where
  "keyword_table =
     [(''research'', [''search'', ''find'', ''research'', ''look up''],
         [''web_search'', ''data_analysis'']),
      (''planning'', [''plan'', ''schedule'', ''organize'', ''break down''],
         [''task_decomposition'', ''workflow_planning'']),
      (''analysis'', [''analyze'', ''report'', ''summarize''],
         [''data_analysis'', ''report_generation'']),
      (''coding'', [''code'', ''program'', ''implement'', ''develop''],
         [''code_generation'', ''debugging''])]"

definition classify_by_table :: "(string \<Rightarrow> string) \<Rightarrow> string \<Rightarrow> string \<times> string list" where
  "classify_by_table lw m =
     (case find (\<lambda>(category, keywords, caps). list_ex (\<lambda>k. occurs_ignoring_case lw k m) keywords)
             keyword_table of
        Some (category, keywords, caps) \<Rightarrow> (category, caps)
      | None \<Rightarrow> (''general'', []))"

section \<open>The rule step of selection, as the specification words it and as amended\<close>

text \<open>
  The specification lets the rule step accept an id of the rule list that is a local
  handle whose advertised capabilities cover the required ones, or, when the id is not
  local, an id that the directory resolves to a record whose capabilities cover them.
\<close>

definition spec_rule_match :: "agent_router \<Rightarrow> string list \<Rightarrow> string \<Rightarrow> bool" where
  "spec_rule_match r required i =
     (case dict_get (agents r) i of
        Some agent \<Rightarrow> set required \<subseteq> set (getattr_capabilities agent)
      | None \<Rightarrow>
          (case get_agent (registry (a2a_client r)) i of
             Some c \<Rightarrow> set required \<subseteq> set (card_capabilities c)
           | None \<Rightarrow> False))"

definition spec_rule_selection :: "agent_router \<Rightarrow> string list \<Rightarrow> string list \<Rightarrow> string option" where
  "spec_rule_selection r required ids = find (spec_rule_match r required) ids"

text \<open>The amended step accepts local handles only.\<close>

definition local_match :: "agent_router \<Rightarrow> string list \<Rightarrow> string \<Rightarrow> bool" where
  "local_match r required i =
     (case dict_get (agents r) i of
        Some agent \<Rightarrow> set required \<subseteq> set (getattr_capabilities agent)
      | None \<Rightarrow> False)"

text \<open>
  The subscribers of a client that the directory resolves, in the order of the
  subscriber set, each with its record.
\<close>

definition resolved_listeners :: "a2a_client \<Rightarrow> agent_card list" where
  "resolved_listeners c = List.map_filter (get_agent (registry c)) (dict_keys (status_listeners c))"

text \<open>A history entry without its timestamp: who spoke, and what.\<close>

definition said :: "history_entry \<Rightarrow> string \<times> string" where
  "said x = (entry_role x, entry_content x)"

text \<open>
  The history of a user when a call of \<open>process_user_input\<close> starts: the stored
  history when the user has a session, nothing for a new user (whose history the call
  initialises).
\<close>

definition prior :: "conversation_manager \<Rightarrow> string \<Rightarrow> history_entry list" where
  "prior cm u = (if dict_mem u (conversation_state cm) then history_of cm u else [])"

section \<open>Example configurations\<close>

text \<open>
  The lower-casing of the example environment is \<open>str.lower()\<close> on the texts of the
  examples: an ASCII letter \<open>A\<close> to \<open>Z\<close> becomes \<open>a\<close> to \<open>z\<close>, the Kelvin sign U+212A
  (bytes E2 84 AA) becomes \<open>k\<close>, the capital I with a dot U+0130 (bytes C4 B0) becomes
  \<open>i\<close> followed by the combining dot U+0307 (bytes CC 87), and every other ASCII character
  stays.
\<close>

definition lower_char :: "char \<Rightarrow> char" where
  "lower_char c =
     (case map_of (zip ''ABCDEFGHIJKLMNOPQRSTUVWXYZ'' ''abcdefghijklmnopqrstuvwxyz'') c of
        Some l \<Rightarrow> l
      | None \<Rightarrow> c)"

fun example_lower :: "string \<Rightarrow> string" where
  "example_lower [] = []"
| "example_lower [a] = [lower_char a]"
| "example_lower [a, b] =
     (if a = CHR 0xC4 \<and> b = CHR 0xB0 then [CHR ''i'', CHR 0xCC, CHR 0x87]
      else lower_char a # example_lower [b])"
| "example_lower (a # b # c # cs) =
     (if a = CHR 0xE2 \<and> b = CHR 0x84 \<and> c = CHR 0xAA then CHR ''k'' # example_lower cs
      else if a = CHR 0xC4 \<and> b = CHR 0xB0 then CHR ''i'' # CHR 0xCC # CHR 0x87 # example_lower (c # cs)
      else lower_char a # example_lower (b # c # cs))"

text \<open>The text \<open>looK up x\<close>, its \<open>K\<close> being the Kelvin sign U+212A.\<close>

definition text_kelvin :: string where
  "text_kelvin = ''loo'' @ [CHR 0xE2, CHR 0x84, CHR 0xAA] @ '' up x''"

definition env0 :: env where
  "env0 =
     \<lparr>clk = (\<lambda>n. n), fails = (\<lambda>c m. None), str_result = res_response,
      str_lower = example_lower\<rparr>"

definition w0 :: world where
  "w0 = \<lparr>ticks = 0, stdout = [], sent = []\<rparr>"

definition card_remote1 :: agent_card where
  "card_remote1 =
     \<lparr>card_agent_id = ''remote1'', card_name = ''SearchAgent'',
      card_description = ''Agent specialized in web_search'',
      card_capabilities = [''web_search''],
      card_endpoints = [(''mcp'', ''stdio'')],
      card_authentication = [(''type'', ''api_key'')],
      card_metadata = [(''version'', ''1.0.0'')]\<rparr>"

definition card_remote1_new :: agent_card where
  "card_remote1_new = card_remote1\<lparr>card_name := ''SearchAgentV2''\<rparr>"

definition registry_empty :: agent_registry where
  "registry_empty = \<lparr>reg_agents = []\<rparr>"

definition registry_remote1 :: agent_registry where
  "registry_remote1 = \<lparr>reg_agents = [(''remote1'', card_remote1)]\<rparr>"

definition client_empty :: a2a_client where
  "client_empty =
     \<lparr>client_agent_id = ''orchestrator'', registry = registry_empty,
      status_listeners = [], message_queue = []\<rparr>"

definition router_empty :: agent_router where
  "router_empty = \<lparr>a2a_client = client_empty, agents = [], routing_rules = []\<rparr>"

definition entry_hello :: history_entry where
  "entry_hello = \<lparr>entry_role = ''user'', entry_content = ''hello'', entry_timestamp = 1\<rparr>"

definition entry_answer :: history_entry where
  "entry_answer = \<lparr>entry_role = ''assistant'', entry_content = ''hi'', entry_timestamp = 2\<rparr>"

definition entry_again :: history_entry where
  "entry_again = \<lparr>entry_role = ''user'', entry_content = ''find x'', entry_timestamp = 3\<rparr>"

definition cm_alice :: conversation_manager where
  "cm_alice =
     \<lparr>router = router_empty,
      conversation_state = [],
      conversation_history = [(''alice'', [entry_hello, entry_answer, entry_again])],
      active_sessions = []\<rparr>"

definition card_remoteA :: agent_card where
  "card_remoteA =
     \<lparr>card_agent_id = ''remoteA'', card_name = ''AnalysisAgent'',
      card_description = ''Agent specialized in data_analysis'',
      card_capabilities = [''data_analysis''],
      card_endpoints = [(''mcp'', ''stdio'')],
      card_authentication = [(''type'', ''api_key'')],
      card_metadata = [(''version'', ''1.0.0'')]\<rparr>"

definition registry_two :: agent_registry where
  "registry_two = \<lparr>reg_agents = [(''remoteA'', card_remoteA), (''remote1'', card_remote1)]\<rparr>"

definition agent_search :: local_agent where
  "agent_search =
     \<lparr>agent_capabilities = Some [''web_search'', ''data_analysis''],
      process_task = (\<lambda>t. Inr (''found '' @ task_message t))\<rparr>"

definition agent_planner :: local_agent where
  "agent_planner =
     \<lparr>agent_capabilities = Some [''task_decomposition''],
      process_task = (\<lambda>t. Inl (OtherError ''planner is busy''))\<rparr>"

definition router_rules :: agent_router where
  "router_rules =
     \<lparr>a2a_client = client_empty\<lparr>registry := registry_remote1\<rparr>,
      agents = [(''local1'', agent_search)],
      routing_rules = [(''research'', [''remote1'', ''local1''])]\<rparr>"

definition router_remote :: agent_router where
  "router_remote =
     \<lparr>a2a_client = client_empty\<lparr>registry := registry_two\<rparr>,
      agents = [(''planner'', agent_planner)],
      routing_rules = [(''research'', [''planner'', ''remote1''])]\<rparr>"

definition router_blank :: agent_router where
  "router_blank =
     \<lparr>a2a_client = client_empty, agents = [('''', agent_search)], routing_rules = []\<rparr>"

definition task_general :: task where
  "task_general =
     \<lparr>task_type = Some ''general'', task_message = ''hello'', task_user_id = ''alice'',
      task_capabilities = Some [], task_context = [], task_conversation_history = [],
      task_timestamp = 0\<rparr>"

definition task_research :: task where
  "task_research =
     \<lparr>task_type = Some ''research'', task_message = ''find x'', task_user_id = ''alice'',
      task_capabilities = Some [''web_search'', ''data_analysis''], task_context = [],
      task_conversation_history = [], task_timestamp = 0\<rparr>"

definition env_refusing :: env where
  "env_refusing =
     env0\<lparr>fails := (\<lambda>c m. if card_agent_id c = ''remote1''
                            then Some (OtherError ''connection refused'') else None)\<rparr>"

definition client_two :: a2a_client where
  "client_two = client_empty\<lparr>registry := registry_two\<rparr>"

definition client_ghost :: a2a_client where
  "client_ghost =
     client_empty\<lparr>registry := registry_remote1, status_listeners := [(''ghost'', True)]\<rparr>"

definition client_three :: a2a_client where
  "client_three =
     client_empty\<lparr>registry := registry_two,
                  status_listeners := [(''remote1'', True), (''ghost'', True), (''remoteA'', True)]\<rparr>"

definition agent_echo :: local_agent where
  "agent_echo =
     \<lparr>agent_capabilities = Some [],
      process_task =
        (\<lambda>t. Inr (concat (map (\<lambda>x. entry_role x @ '':'' @ entry_content x @ '';'')
                            (task_conversation_history t))))\<rparr>"

definition cm_fresh :: conversation_manager where
  "cm_fresh =
     \<lparr>router = \<lparr>a2a_client = client_empty, agents = [(''echo'', agent_echo)], routing_rules = []\<rparr>,
      conversation_state = [],
      conversation_history = [],
      active_sessions = []\<rparr>"

definition task_debugging :: task where
  "task_debugging = task_general\<lparr>task_capabilities := Some [''debugging'']\<rparr>"

definition session_alice :: conv_state where
  "session_alice = \<lparr>started_at = 0, state_context = [], preferences = [], last_activity = 2\<rparr>"

definition cm_returning :: conversation_manager where
  "cm_returning =
     \<lparr>router = router_empty,
      conversation_state = [(''alice'', session_alice)],
      conversation_history = [(''alice'', [entry_hello, entry_answer])],
      active_sessions = [(''alice'', True)]\<rparr>"

definition cm_preferences :: conversation_manager where
  "cm_preferences =
     cm_fresh\<lparr>conversation_state := [(''bob'', session_alice)],
              conversation_history := [(''bob'', [])],
              active_sessions := [(''bob'', True)]\<rparr>"

section \<open>Dictionary lemmas\<close>

lemma dict_get_set_same: "dict_get (dict_set d k v) k = Some v"
  by (induction d k v rule: dict_set.induct) auto

lemma dict_get_set_other: "k' \<noteq> k \<Longrightarrow> dict_get (dict_set d k v) k' = dict_get d k'"
  by (induction d k v rule: dict_set.induct) auto

lemma dict_get_del_same: "dict_get (dict_del d k) k = None"
  by (induction d k rule: dict_del.induct) auto

lemma dict_get_del_other: "k' \<noteq> k \<Longrightarrow> dict_get (dict_del d k) k' = dict_get d k'"
  by (induction d k rule: dict_del.induct) auto

lemma dict_get_None_iff: "dict_get d k = None \<longleftrightarrow> k \<notin> set (dict_keys d)"
  by (induction d k rule: dict_get.induct) (auto simp: dict_keys_def)

lemma dict_get_Some_in: "dict_get d k = Some v \<Longrightarrow> (k, v) \<in> set d"
  by (induction d k rule: dict_get.induct) (auto split: if_splits)

lemma dict_keys_set: "set (dict_keys (dict_set d k v)) = insert k (set (dict_keys d))"
  by (induction d k v rule: dict_set.induct) (auto simp: dict_keys_def)

lemma dict_keys_del: "set (dict_keys (dict_del d k)) = set (dict_keys d) - {k}"
  by (induction d k rule: dict_del.induct) (auto simp: dict_keys_def)

text \<open>The two updates keep the keys of a dictionary distinct.\<close>

lemma dict_set_distinct: "distinct (dict_keys d) \<Longrightarrow> distinct (dict_keys (dict_set d k v))"
proof (induction d k v rule: dict_set.induct)
  case (1 k v)
  then show ?case by (simp add: dict_keys_def)
next
  case (2 k' v' d k v)
  show ?case
  proof (cases "k' = k")
    case True
    with 2 show ?thesis by (simp add: dict_keys_def)
  next
    case False
    have "k' \<notin> set (dict_keys (dict_set d k v))"
      using 2(2) False by (simp add: dict_keys_set) (simp add: dict_keys_def)
    moreover have "distinct (dict_keys (dict_set d k v))"
      using 2 False by (simp add: dict_keys_def)
    ultimately show ?thesis using False by (simp add: dict_keys_def)
  qed
qed

lemma dict_del_distinct: "distinct (dict_keys d) \<Longrightarrow> distinct (dict_keys (dict_del d k))"
proof (induction d k rule: dict_del.induct)
  case (1 k)
  then show ?case by (simp add: dict_keys_def)
next
  case (2 k' v' d k)
  have d: "distinct (dict_keys (dict_del d k))"
    using 2 by (cases "k' = k") (simp_all add: dict_keys_def)
  have "k' \<notin> set (dict_keys (dict_del d k))"
    using 2(3) by (simp add: dict_keys_del) (simp add: dict_keys_def)
  with d show ?case by (simp add: dict_keys_def)
qed

section \<open>The directory: lookups after registration and removal\<close>

text \<open>
  C8. Whatever the directory holds, \<open>get_agent\<close> returns the record \<open>R\<close> right after
  \<open>register_agent\<close> of \<open>R\<close>: registration is a total function (it has no failing branch),
  and it overwrites a record stored under the same id, so the last writer wins.
  \<open>get_agent\<close> returns nothing for an id right after \<open>unregister_agent\<close> of that id, and
  \<open>unregister_agent\<close> of an id the directory does not hold changes neither the directory
  nor the world.
\<close>

theorem registry_get_register_unregister:
  "get_agent (fst (register_agent reg R w)) (card_agent_id R) = Some R
   \<and> (card_agent_id R' = card_agent_id R \<longrightarrow>
        get_agent (fst (register_agent (fst (register_agent reg R' w')) R w)) (card_agent_id R) = Some R)
   \<and> get_agent (fst (unregister_agent (fst (register_agent reg R w)) (card_agent_id R) w')) (card_agent_id R) = None
   \<and> get_agent (fst (unregister_agent reg i w)) i = None
   \<and> (get_agent reg i = None \<longrightarrow> unregister_agent reg i w = (reg, w))"
  by (simp add: register_agent_def unregister_agent_def get_agent_def dict_mem_def
      dict_get_set_same dict_get_del_same)

theorem registry_get_register_unregister_witness:
  "card_agent_id card_remote1 = card_agent_id card_remote1_new
   \<and> get_agent (fst (register_agent registry_empty card_remote1_new w0)) ''remote1'' = Some card_remote1_new
   \<and> get_agent (fst (register_agent (fst (register_agent registry_empty card_remote1 w0))
         card_remote1_new w0)) ''remote1'' = Some card_remote1_new
   \<and> get_agent (fst (unregister_agent (fst (register_agent registry_empty card_remote1_new w0))
         ''remote1'' w0)) ''remote1'' = None
   \<and> get_agent registry_remote1 ''ghost'' = None
   \<and> unregister_agent registry_remote1 ''ghost'' w0 = (registry_remote1, w0)"
proof -
  have same: "card_agent_id card_remote1 = card_agent_id card_remote1_new"
    by (simp add: card_remote1_new_def)
  have id: "card_agent_id card_remote1_new = ''remote1''"
    by (simp add: card_remote1_new_def card_remote1_def)
  have absent: "get_agent registry_remote1 ''ghost'' = None"
    by (simp add: get_agent_def registry_remote1_def)
  have a: "get_agent (fst (unregister_agent registry_remote1 ''ghost'' w0)) ''ghost'' = None
           \<and> unregister_agent registry_remote1 ''ghost'' w0 = (registry_remote1, w0)"
    using registry_get_register_unregister
      [where reg = registry_remote1 and R = card_remote1 and w = w0 and R' = card_remote1 and w' = w0
         and i = "''ghost''"]
      absent by blast
  have b: "get_agent (fst (register_agent registry_empty card_remote1_new w0)) (card_agent_id card_remote1_new)
             = Some card_remote1_new
           \<and> get_agent (fst (register_agent (fst (register_agent registry_empty card_remote1 w0))
                 card_remote1_new w0)) (card_agent_id card_remote1_new) = Some card_remote1_new
           \<and> get_agent (fst (unregister_agent (fst (register_agent registry_empty card_remote1_new w0))
                 (card_agent_id card_remote1_new) w0)) (card_agent_id card_remote1_new) = None"
    using registry_get_register_unregister
      [where reg = registry_empty and R = card_remote1_new and w = w0 and R' = card_remote1 and w' = w0
         and i = "''ghost''"] same by blast
  from a b same absent show ?thesis by (simp add: id)
qed

section \<open>Substrings\<close>

lemma starts_with_iff: "starts_with s k \<longleftrightarrow> (\<exists>q. s = k @ q)"
  by (induction s k rule: starts_with.induct) auto

lemma contains_iff: "contains k s \<longleftrightarrow> (\<exists>p q. s = p @ k @ q)"
proof (induction s)
  case Nil
  then show ?case by auto
next
  case (Cons c cs)
  show ?case
  proof
    assume "contains k (c # cs)"
    then consider "starts_with (c # cs) k" | "contains k cs" by auto
    then show "\<exists>p q. c # cs = p @ k @ q"
    proof cases
      case 1
      then obtain q where "c # cs = k @ q" by (auto simp: starts_with_iff)
      then have "c # cs = [] @ k @ q" by simp
      then show ?thesis by blast
    next
      case 2
      then obtain p q where "cs = p @ k @ q" using Cons.IH by blast
      then have "c # cs = (c # p) @ k @ q" by simp
      then show ?thesis by blast
    qed
  next
    assume "\<exists>p q. c # cs = p @ k @ q"
    then obtain p q where pq: "c # cs = p @ k @ q" by blast
    show "contains k (c # cs)"
    proof (cases p)
      case Nil
      with pq have "starts_with (c # cs) k" by (auto simp: starts_with_iff)
      then show ?thesis by simp
    next
      case (Cons a p')
      with pq have "cs = p' @ k @ q" by simp
      then have "contains k cs" using Cons.IH by blast
      then show ?thesis by simp
    qed
  qed
qed

text \<open>
  Where lower-casing works character by character, as it does on ASCII text, a keyword
  occurs in the lowered text exactly when a run of the text lowers to the keyword.
\<close>

lemma contains_map_iff: "contains k (map f m) \<longleftrightarrow> (\<exists>p x q. m = p @ x @ q \<and> map f x = k)"
proof
  assume "contains k (map f m)"
  then obtain p' q' where "map f m = p' @ k @ q'"
    by (auto simp: contains_iff)
  then obtain p r where m: "m = p @ r" and "k @ q' = map f r"
    by (auto simp: map_eq_append_conv)
  then obtain x q where "r = x @ q" "k = map f x"
    by (auto simp: append_eq_map_conv)
  with m show "\<exists>p x q. m = p @ x @ q \<and> map f x = k" by auto
next
  assume "\<exists>p x q. m = p @ x @ q \<and> map f x = k"
  then obtain p x q where "m = p @ x @ q" "map f x = k" by blast
  then have "map f m = map f p @ k @ map f q" by simp
  then show "contains k (map f m)" unfolding contains_iff by blast
qed

lemma occurs_ignoring_case_iff: "occurs_ignoring_case lw k m \<longleftrightarrow> contains k (lw m)"
  by (simp add: occurs_ignoring_case_def contains_iff)

section \<open>Classification of a message\<close>

text \<open>
  C6. For every user id and message text, and whatever \<open>str.lower()\<close> makes of the text,
  the type and the required capabilities of the task that \<open>_analyze_user_message\<close> builds
  are those of the first row of the ordered keyword table (research, planning, analysis,
  coding) one of whose keywords occurs as a substring of the lower-cased text; when no row
  matches, the type is \<open>general\<close> and the required capabilities are empty.
\<close>

theorem analyze_user_message_classifies_by_table:
  "task_type (fst (analyze_user_message e cm u m w)) = Some (fst (classify_by_table (str_lower e) m))
   \<and> task_capabilities (fst (analyze_user_message e cm u m w))
       = Some (snd (classify_by_table (str_lower e) m))"
  by (simp add: analyze_user_message_def classify_by_table_def keyword_table_def
      occurs_ignoring_case_iff Let_def now_def split: prod.splits)

theorem analyze_user_message_classifies_by_table_witness:
  "task_type (fst (analyze_user_message env0 cm_alice ''bob'' ''Search for X'' w0)) = Some ''research''
   \<and> task_capabilities (fst (analyze_user_message env0 cm_alice ''bob'' ''Search for X'' w0))
       = Some [''web_search'', ''data_analysis'']
   \<and> task_type (fst (analyze_user_message env0 cm_alice ''bob'' ''plan a project'' w0)) = Some ''planning''
   \<and> task_type (fst (analyze_user_message env0 cm_alice ''bob'' ''Plan to FIND a report'' w0)) = Some ''research''
   \<and> task_type (fst (analyze_user_message env0 cm_alice ''bob'' text_kelvin w0)) = Some ''research''
   \<and> task_type (fst (analyze_user_message env0 cm_alice ''bob'' ''Hello there'' w0)) = Some ''general''
   \<and> task_capabilities (fst (analyze_user_message env0 cm_alice ''bob'' ''Hello there'' w0)) = Some []"
proof -
  have 1: "classify_by_table (str_lower env0) ''Search for X''
             = (''research'', [''web_search'', ''data_analysis''])"
    by (simp add: classify_by_table_def keyword_table_def occurs_ignoring_case_iff env0_def lower_char_def)
  have 2: "classify_by_table (str_lower env0) ''plan a project''
             = (''planning'', [''task_decomposition'', ''workflow_planning''])"
    by (simp add: classify_by_table_def keyword_table_def occurs_ignoring_case_iff env0_def lower_char_def)
  have 3: "classify_by_table (str_lower env0) ''Plan to FIND a report''
             = (''research'', [''web_search'', ''data_analysis''])"
    by (simp add: classify_by_table_def keyword_table_def occurs_ignoring_case_iff env0_def lower_char_def)
  have 4: "classify_by_table (str_lower env0) text_kelvin
             = (''research'', [''web_search'', ''data_analysis''])"
    by (simp add: classify_by_table_def keyword_table_def occurs_ignoring_case_iff env0_def
        lower_char_def text_kelvin_def)
  have 5: "classify_by_table (str_lower env0) ''Hello there'' = (''general'', [])"
    by (simp add: classify_by_table_def keyword_table_def occurs_ignoring_case_iff env0_def lower_char_def)
  show ?thesis
    using analyze_user_message_classifies_by_table [of env0 cm_alice "''bob''" "''Search for X''" w0]
      analyze_user_message_classifies_by_table [of env0 cm_alice "''bob''" "''plan a project''" w0]
      analyze_user_message_classifies_by_table [of env0 cm_alice "''bob''" "''Plan to FIND a report''" w0]
      analyze_user_message_classifies_by_table [of env0 cm_alice "''bob''" text_kelvin w0]
      analyze_user_message_classifies_by_table [of env0 cm_alice "''bob''" "''Hello there''" w0]
    by (simp add: 1 2 3 4 5)
qed

section \<open>Reading the history with a limit\<close>



section \<open>Selection of an agent\<close>

lemma agent_has_capabilities_iff:
  "agent_has_capabilities agent required \<longleftrightarrow> set required \<subseteq> set (getattr_capabilities agent)"
  by (auto simp: agent_has_capabilities_def Let_def list_all_iff)

text \<open>Each loop is a search for the first element that passes its test.\<close>

lemma rule_scan_find: "rule_scan (agents r) required ids = find (local_match r required) ids"
  by (induction ids) (auto simp: local_match_def agent_has_capabilities_iff split: option.splits)

lemma find_local_match_mem: "find (local_match r required) ids = Some i \<Longrightarrow> dict_mem i (agents r)"
  by (auto simp: find_Some_iff local_match_def dict_mem_def split: option.splits)

lemma local_scan_find:
  "local_scan required ags = map_option fst (find (\<lambda>(i, a). agent_has_capabilities a required) ags)"
  by (induction ags) auto

lemma external_scan_find:
  "external_scan reg required =
     (case find (\<lambda>c. discover_agents reg c \<noteq> []) required of
        Some c \<Rightarrow> Some (card_agent_id (hd (discover_agents reg c)))
      | None \<Rightarrow> None)"
  by (induction required) (auto split: list.splits)

text \<open>When no local handle covers the required capabilities, the two local steps find nothing.\<close>

lemma local_scan_None:
  "\<forall>a \<in> set (dict_values ags). \<not> set required \<subseteq> set (getattr_capabilities a) \<Longrightarrow>
   local_scan required ags = None"
proof (induction ags)
  case Nil
  then show ?case by simp
next
  case (Cons p ags)
  obtain i a where p: "p = (i, a)" by (cases p)
  from Cons.prems p have "\<not> agent_has_capabilities a required"
    by (simp add: dict_values_def agent_has_capabilities_iff)
  moreover from Cons have "local_scan required ags = None" by (simp add: dict_values_def)
  ultimately show ?case using p by simp
qed

lemma rule_scan_None:
  "\<forall>a \<in> set (dict_values ags). \<not> set required \<subseteq> set (getattr_capabilities a) \<Longrightarrow>
   rule_scan ags required ids = None"
proof (induction ids)
  case Nil
  then show ?case by simp
next
  case (Cons i ids)
  show ?case
  proof (cases "dict_get ags i")
    case None
    with Cons show ?thesis by simp
  next
    case (Some a)
    then have "a \<in> set (dict_values ags)"
      by (auto dest!: dict_get_Some_in simp: dict_values_def intro: rev_image_eqI)
    with Cons Some show ?thesis by (simp add: agent_has_capabilities_iff)
  qed
qed

text \<open>\<open>route_task\<close> has no raising branch: every call returns a text.\<close>

lemma route_task_returns: "\<exists>s w'. route_task e r t w = (Inr s, w')"
  by (auto simp: route_task_def Let_def split: option.splits prod.splits sum.splits)

subsection \<open>The rule step\<close>

text \<open>
  C1, as the specification states it, fails. With the rule list \<open>[remote1, local1]\<close>
  for the type \<open>research\<close>, where \<open>remote1\<close> is no local handle but a record of the
  directory that advertises \<open>web_search\<close>, and \<open>local1\<close> is a local handle that
  advertises it too, the specification's rule step picks \<open>remote1\<close>; the code skips
  every id that is not a local handle (\<open>if agent_id in self.agents\<close>) and picks
  \<open>local1\<close>.
\<close>

theorem rule_step_skips_directory_ids:
  "dict_get (routing_rules router_rules) ''research'' = Some [''remote1'', ''local1'']
   \<and> spec_rule_selection router_rules [''web_search''] [''remote1'', ''local1''] = Some ''remote1''
   \<and> select_best_agent router_rules ''research'' [''web_search''] = Some ''local1''"
  by (simp add: router_rules_def spec_rule_selection_def spec_rule_match_def select_best_agent_def
      agent_has_capabilities_def getattr_capabilities_def agent_search_def get_agent_def
      registry_remote1_def card_remote1_def client_empty_def)

text \<open>
  C1, amended. For every task whose type has a rule-table entry, selection scans that
  entry's agent-id list in order and picks the first id that is a local handle whose
  advertised capabilities are a superset of the task's required capabilities; the id it
  picks at this step is always a local handle. An id of the list that is not a local
  handle is skipped, whatever the directory holds; when the list has no matching local
  handle, selection goes on as if the type had no rule.
\<close>

theorem rule_step_selects_first_local_match:
  assumes "dict_get (routing_rules r) ty = Some ids"
  shows "(\<forall>i. find (local_match r required) ids = Some i \<longrightarrow>
            select_best_agent r ty required = Some i \<and> dict_mem i (agents r))
         \<and> (find (local_match r required) ids = None \<longrightarrow>
            select_best_agent r ty required = select_best_agent (r\<lparr>routing_rules := []\<rparr>) ty required)"
  using assms
  by (auto simp: select_best_agent_def rule_scan_find find_local_match_mem split: option.splits)

theorem rule_step_selects_first_local_match_witness:
  "dict_get (routing_rules router_rules) ''research'' = Some [''remote1'', ''local1'']
   \<and> find (local_match router_rules [''web_search'']) [''remote1'', ''local1''] = Some ''local1''
   \<and> select_best_agent router_rules ''research'' [''web_search''] = Some ''local1''
   \<and> dict_mem ''local1'' (agents router_rules)
   \<and> dict_get (routing_rules router_remote) ''research'' = Some [''planner'', ''remote1'']
   \<and> find (local_match router_remote [''web_search'']) [''planner'', ''remote1''] = None
   \<and> select_best_agent router_remote ''research'' [''web_search'']
       = select_best_agent (router_remote\<lparr>routing_rules := []\<rparr>) ''research'' [''web_search'']"
proof -
  have rule1: "dict_get (routing_rules router_rules) ''research'' = Some [''remote1'', ''local1'']"
    by (simp add: router_rules_def)
  have hit: "find (local_match router_rules [''web_search'']) [''remote1'', ''local1''] = Some ''local1''"
    by (simp add: local_match_def router_rules_def getattr_capabilities_def agent_search_def)
  have rule2: "dict_get (routing_rules router_remote) ''research'' = Some [''planner'', ''remote1'']"
    by (simp add: router_remote_def)
  have miss: "find (local_match router_remote [''web_search'']) [''planner'', ''remote1''] = None"
    by (simp add: local_match_def router_remote_def getattr_capabilities_def agent_planner_def)
  have a: "select_best_agent router_rules ''research'' [''web_search''] = Some ''local1''
           \<and> dict_mem ''local1'' (agents router_rules)"
    using rule_step_selects_first_local_match [OF rule1, of "[''web_search'']"] hit by blast
  have b: "select_best_agent router_remote ''research'' [''web_search'']
           = select_best_agent (router_remote\<lparr>routing_rules := []\<rparr>) ''research'' [''web_search'']"
    using rule_step_selects_first_local_match [OF rule2, of "[''web_search'']"] miss by blast
  from rule1 hit rule2 miss a b show ?thesis by blast
qed

subsection \<open>The external fallback\<close>

text \<open>
  C3. For every task with a non-empty list of required capabilities that no local handle
  covers (so that neither the rule step nor the scan of the local handles selects an
  agent), selection asks the directory's \<open>discover_agents\<close> for each required capability
  in order and returns the id of the first record of the first non-empty answer, or
  nothing when every answer is empty. The record is taken as it comes: it advertises that
  one capability, and nothing checks it against the other required capabilities.
\<close>

theorem external_fallback_first_discovered:
  assumes "required \<noteq> []"
    and "\<forall>a \<in> set (dict_values (agents r)). \<not> set required \<subseteq> set (getattr_capabilities a)"
  shows "select_best_agent r ty required =
           (case find (\<lambda>c. discover_agents (registry (a2a_client r)) c \<noteq> []) required of
              Some c \<Rightarrow> Some (card_agent_id (hd (discover_agents (registry (a2a_client r)) c)))
            | None \<Rightarrow> None)"
  using assms
  by (simp add: select_best_agent_def rule_scan_None local_scan_None external_scan_find
      split: option.splits)

theorem external_fallback_first_discovered_witness:
  "[''web_search'', ''data_analysis''] \<noteq> ([] :: string list)
   \<and> dict_values (agents router_remote) = [agent_planner]
   \<and> \<not> set [''web_search'', ''data_analysis''] \<subseteq> set (getattr_capabilities agent_planner)
   \<and> dict_values (reg_agents (registry (a2a_client router_remote))) = [card_remoteA, card_remote1]
   \<and> discover_agents (registry (a2a_client router_remote)) ''web_search'' = [card_remote1]
   \<and> select_best_agent router_remote ''research'' [''web_search'', ''data_analysis''] = Some ''remote1''
   \<and> \<not> set [''web_search'', ''data_analysis''] \<subseteq> set (card_capabilities card_remote1)"
proof -
  have vals: "dict_values (agents router_remote) = [agent_planner]"
    by (simp add: router_remote_def dict_values_def)
  have planner: "\<not> set [''web_search'', ''data_analysis''] \<subseteq> set (getattr_capabilities agent_planner)"
    by (simp add: getattr_capabilities_def agent_planner_def)
  have none_local: "\<forall>a \<in> set (dict_values (agents router_remote)).
      \<not> set [''web_search'', ''data_analysis''] \<subseteq> set (getattr_capabilities a)"
    using planner by (simp add: vals)
  have dir: "dict_values (reg_agents (registry (a2a_client router_remote))) = [card_remoteA, card_remote1]"
    by (simp add: router_remote_def registry_two_def dict_values_def)
  have disc: "discover_agents (registry (a2a_client router_remote)) ''web_search'' = [card_remote1]"
    by (simp add: discover_agents_def dir card_remoteA_def card_remote1_def)
  have lacking: "\<not> set [''web_search'', ''data_analysis''] \<subseteq> set (card_capabilities card_remote1)"
    by (simp add: card_remote1_def)
  have nonempty: "[''web_search'', ''data_analysis''] \<noteq> ([] :: string list)" by simp
  have sel: "select_best_agent router_remote ''research'' [''web_search'', ''data_analysis''] = Some ''remote1''"
    using external_fallback_first_discovered [OF nonempty none_local, of "''research''"]
    by (simp add: disc card_remote1_def)
  from nonempty vals planner dir disc sel lacking show ?thesis by blast
qed

subsection \<open>No agent selected\<close>

text \<open>
  C2, as the specification states it, fails. With no local handle, no rule and an empty
  directory, selection finds no agent for a research task, and \<open>route_task\<close> returns
  normally: its result is the text \<open>No suitable agent found for task type: research\<close>,
  not a raised failure.
\<close>

theorem route_task_no_agent_not_raised:
  "select_best_agent router_empty ''research'' [''web_search'', ''data_analysis''] = None
   \<and> route_task env0 router_empty task_research w0
       = (Inr ''No suitable agent found for task type: research'', w0)"
  by (simp add: router_empty_def select_best_agent_def route_task_def task_research_def
      client_empty_def registry_empty_def discover_agents_def dict_values_def)

text \<open>
  C2, amended. For every task for which the three selection steps find no agent,
  \<open>route_task\<close> returns to its caller, as an ordinary result, the text
  \<open>No suitable agent found for task type:\<close> followed by the task type (\<open>general\<close> when
  the task names none), and changes nothing in the world: the selection failure is
  converted to a textual result and nothing is raised.
\<close>

theorem route_task_no_agent_returns_text:
  assumes "select_best_agent r (case task_type t of Some x \<Rightarrow> x | None \<Rightarrow> ''general'')
             (case task_capabilities t of Some cs \<Rightarrow> cs | None \<Rightarrow> []) = None"
  shows "route_task e r t w =
           (Inr (''No suitable agent found for task type: ''
                  @ (case task_type t of Some x \<Rightarrow> x | None \<Rightarrow> ''general'')), w)"
  using assms by (simp add: route_task_def)

theorem route_task_no_agent_returns_text_witness:
  "select_best_agent router_remote ''general'' [''debugging''] = None
   \<and> task_type task_debugging = Some ''general''
   \<and> task_capabilities task_debugging = Some [''debugging'']
   \<and> route_task env0 router_remote task_debugging w0
       = (Inr ''No suitable agent found for task type: general'', w0)"
proof -
  have ty: "task_type task_debugging = Some ''general''"
    by (simp add: task_debugging_def task_general_def)
  have caps: "task_capabilities task_debugging = Some [''debugging'']"
    by (simp add: task_debugging_def)
  have sel: "select_best_agent router_remote ''general'' [''debugging''] = None"
    by (simp add: router_remote_def select_best_agent_def agent_has_capabilities_def
        getattr_capabilities_def agent_planner_def discover_agents_def dict_values_def
        registry_two_def card_remoteA_def card_remote1_def client_empty_def)
  have none: "select_best_agent router_remote
       (case task_type task_debugging of Some x \<Rightarrow> x | None \<Rightarrow> ''general'')
       (case task_capabilities task_debugging of Some cs \<Rightarrow> cs | None \<Rightarrow> []) = None"
    using sel by (simp add: ty caps)
  have "route_task env0 router_remote task_debugging w0
       = (Inr ''No suitable agent found for task type: general'', w0)"
    using route_task_no_agent_returns_text [OF none, of env0 w0] by (simp add: ty)
  with sel ty caps show ?thesis by blast
qed

subsection \<open>Empty required capabilities\<close>

text \<open>
  With no required capability every local handle passes the capability check, so
  selection returns a local handle whenever the router has one.
\<close>

lemma select_best_agent_empty_required_local:
  assumes "agents r \<noteq> []"
  shows "\<exists>i. select_best_agent r ty [] = Some i \<and> dict_mem i (agents r)"
proof -
  obtain i a rest where ags: "agents r = (i, a) # rest"
    using assms by (cases "agents r") auto
  have l: "local_scan [] (agents r) = Some i"
    by (simp add: ags agent_has_capabilities_def)
  have m: "dict_mem i (agents r)" by (simp add: ags dict_mem_def)
  show ?thesis
  proof (cases "dict_get (routing_rules r) ty")
    case None
    with l m show ?thesis by (simp add: select_best_agent_def)
  next
    case (Some ids)
    show ?thesis
    proof (cases "find (local_match r []) ids")
      case None
      with Some l m show ?thesis by (simp add: select_best_agent_def rule_scan_find)
    next
      case (Some j)
      with \<open>dict_get (routing_rules r) ty = Some ids\<close> show ?thesis
        by (simp add: select_best_agent_def rule_scan_find find_local_match_mem)
    qed
  qed
qed

text \<open>
  \<open>route_task\<close> then runs that local handle, provided no handle is registered under the
  empty string.
\<close>

lemma route_task_empty_required_runs_local:
  assumes "agents r \<noteq> []" and "\<not> dict_mem [] (agents r)"
    and "(case task_capabilities t of Some cs \<Rightarrow> cs | None \<Rightarrow> []) = []"
  shows "\<exists>i a. dict_get (agents r) i = Some a
           \<and> route_task e r t w =
               (Inr (case process_task a t of
                       Inr res \<Rightarrow> ''Task completed by '' @ i @ '': '' @ res
                     | Inl err \<Rightarrow> ''Error executing task with agent '' @ i @ '': '' @ str_exn err),
                w)"
proof -
  obtain i where sel:
    "select_best_agent r (case task_type t of Some x \<Rightarrow> x | None \<Rightarrow> ''general'') [] = Some i"
    and mem: "dict_mem i (agents r)"
    using select_best_agent_empty_required_local [OF assms(1)] by blast
  from mem assms(2) have nonblank: "i \<noteq> []" by auto
  from mem obtain a where a: "dict_get (agents r) i = Some a" by (auto simp: dict_mem_def)
  have "route_task e r t w =
          (Inr (case process_task a t of
                  Inr res \<Rightarrow> ''Task completed by '' @ i @ '': '' @ res
                | Inl err \<Rightarrow> ''Error executing task with agent '' @ i @ '': '' @ str_exn err), w)"
    using sel nonblank a assms(3)
    by (cases "process_task a t") (simp_all add: route_task_def execute_task_with_agent_def)
  with a show ?thesis by blast
qed

text \<open>
  C9. The claim holds for selection, and for \<open>route_task\<close> as long as the selected id is
  not the empty string. A router whose only local handle is registered under the id
  \<open>''''\<close> selects that handle for a task without required capabilities, and
  \<open>route_task\<close> then takes the no-suitable-agent branch all the same, because it tests
  the selection with \<open>if not best_agent\<close>, which also holds for the empty string.
\<close>

theorem route_task_blank_agent_id:
  "agents router_blank \<noteq> []
   \<and> task_capabilities task_general = Some []
   \<and> select_best_agent router_blank ''general'' [] = Some ''''
   \<and> dict_mem '''' (agents router_blank)
   \<and> route_task env0 router_blank task_general w0
       = (Inr ''No suitable agent found for task type: general'', w0)"
  by (simp add: router_blank_def select_best_agent_def agent_has_capabilities_def dict_mem_def
      route_task_def task_general_def)

section \<open>Delegation\<close>

text \<open>
  C4. \<open>delegate_task\<close> first looks the target up with the directory's \<open>get_agent\<close>. When
  the target is absent it fails with the \<open>ValueError\<close> that names the target, and the
  world is as before: the clock was not read for an envelope and nothing was handed to the
  transport. When the target is present and the transport raises, it fails with an
  \<open>Exception\<close> whose message holds the target id and the message of the underlying
  error; the envelope was handed to the transport once.
\<close>

theorem delegate_task_failures:
  "(get_agent (registry c) target = None \<longrightarrow>
      delegate_task e c target t w =
        (Inl (ValueError (''Agent '' @ target @ '' not found in registry'')), w))
   \<and> (get_agent (registry c) target = Some a
       \<and> fails e a (task_delegation_message c target t (clk e (ticks w)) (clk e (Suc (ticks w))))
           = Some err \<longrightarrow>
      delegate_task e c target t w =
        (Inl (Exception (''Failed to delegate task to '' @ target @ '': '' @ str_exn err)),
         w\<lparr>ticks := Suc (Suc (ticks w)),
           sent := sent w @ [(a, task_delegation_message c target t
                                   (clk e (ticks w)) (clk e (Suc (ticks w))))]\<rparr>))"
  by (simp add: delegate_task_def now_def send_message_def Let_def)

theorem delegate_task_failures_witness:
  "get_agent (registry client_two) ''ghost'' = None
   \<and> delegate_task env_refusing client_two ''ghost'' task_research w0
       = (Inl (ValueError ''Agent ghost not found in registry''), w0)
   \<and> get_agent (registry client_two) ''remote1'' = Some card_remote1
   \<and> fails env_refusing card_remote1 (task_delegation_message client_two ''remote1'' task_research 0 1)
       = Some (OtherError ''connection refused'')
   \<and> delegate_task env_refusing client_two ''remote1'' task_research w0
       = (Inl (Exception ''Failed to delegate task to remote1: connection refused''),
          \<lparr>ticks = 2, stdout = [],
           sent = [(card_remote1, task_delegation_message client_two ''remote1'' task_research 0 1)]\<rparr>)"
proof -
  have absent: "get_agent (registry client_two) ''ghost'' = None"
    by (simp add: client_two_def registry_two_def get_agent_def)
  have present: "get_agent (registry client_two) ''remote1'' = Some card_remote1"
    by (simp add: client_two_def registry_two_def get_agent_def)
  have clock: "clk env_refusing (ticks w0) = 0" "clk env_refusing (Suc (ticks w0)) = 1"
    by (simp_all add: env_refusing_def env0_def w0_def)
  have refused: "fails env_refusing card_remote1
      (task_delegation_message client_two ''remote1'' task_research 0 1)
        = Some (OtherError ''connection refused'')"
    by (simp add: env_refusing_def card_remote1_def)
  have a: "delegate_task env_refusing client_two ''ghost'' task_research w0
       = (Inl (ValueError ''Agent ghost not found in registry''), w0)"
    using delegate_task_failures
      [where c = client_two and target = "''ghost''" and e = env_refusing and t = task_research
         and w = w0 and a = card_remote1 and err = "OtherError ''connection refused''"]
      absent by simp
  have b: "delegate_task env_refusing client_two ''remote1'' task_research w0
       = (Inl (Exception ''Failed to delegate task to remote1: connection refused''),
          \<lparr>ticks = 2, stdout = [],
           sent = [(card_remote1, task_delegation_message client_two ''remote1'' task_research 0 1)]\<rparr>)"
    using delegate_task_failures
      [where c = client_two and target = "''remote1''" and e = env_refusing and t = task_research
         and w = w0 and a = card_remote1 and err = "OtherError ''connection refused''"]
      present refused
    by (simp add: clock) (simp add: w0_def)
  from absent a present refused b show ?thesis by blast
qed

section \<open>Broadcast\<close>

lemma send_message_sent: "sent (snd (send_message e a msg w)) = sent w @ [(a, msg)]"
  by (simp add: send_message_def now_def Let_def split: option.splits)

lemma send_status_update_sent:
  "sent (snd (send_status_update e c l msg w)) =
     sent w @ (case get_agent (registry c) l of Some a \<Rightarrow> [(a, msg)] | None \<Rightarrow> [])"
proof (cases "get_agent (registry c) l")
  case None
  then show ?thesis by (simp add: send_status_update_def)
next
  case (Some a)
  obtain res w1 where s: "send_message e a msg w = (res, w1)" by (cases "send_message e a msg w")
  have "sent w1 = sent w @ [(a, msg)]" using send_message_sent [of e a msg w] s by simp
  with Some s show ?thesis by (cases res) (simp_all add: send_status_update_def)
qed

text \<open>The loop ends normally whatever the sends do: each failure is caught and printed.\<close>

lemma broadcast_loop_returns: "fst (broadcast_loop e c msg ls w) = Inr ()"
  by (induction ls arbitrary: w) (auto split: prod.splits sum.splits)

lemma broadcast_loop_sent:
  "sent (snd (broadcast_loop e c msg ls w)) =
     sent w @ map (\<lambda>a. (a, msg)) (List.map_filter (get_agent (registry c)) ls)"
proof (induction ls arbitrary: w)
  case Nil
  then show ?case by simp
next
  case (Cons l ls)
  obtain res w1 where s: "send_status_update e c l msg w = (res, w1)"
    by (cases "send_status_update e c l msg w")
  have w1: "sent w1 = sent w @ (case get_agent (registry c) l of Some a \<Rightarrow> [(a, msg)] | None \<Rightarrow> [])"
    using send_status_update_sent [of e c l msg w] s by simp
  show ?case
  proof (cases res)
    case (Inl err)
    with s w1 Cons.IH [of "print (''Failed to send status to '' @ l @ '': '' @ str_exn err) w1"]
    show ?thesis by (simp add: print_def split: option.splits)
  next
    case (Inr u)
    with s w1 Cons.IH [of w1] show ?thesis by (simp split: option.splits)
  qed
qed

text \<open>Subscribing and unsubscribing keep the subscriber ids distinct.\<close>

lemma subscribe_to_status_distinct:
  "distinct (dict_keys (status_listeners c)) \<Longrightarrow>
   distinct (dict_keys (status_listeners (fst (subscribe_to_status c i w))))"
  by (simp add: subscribe_to_status_def dict_set_distinct)

lemma unsubscribe_from_status_distinct:
  "distinct (dict_keys (status_listeners c)) \<Longrightarrow>
   distinct (dict_keys (status_listeners (fst (unsubscribe_from_status c i w))))"
  by (simp add: unsubscribe_from_status_def dict_del_distinct)

text \<open>
  C5, as stated, fails. A subscriber that the directory does not resolve gets no delivery
  attempt: \<open>_send_status_update\<close> hands the envelope to the transport only
  \<open>if target_card\<close>. With the single subscriber \<open>ghost\<close>, unknown to the directory, a
  broadcast hands nothing to the transport.
\<close>

theorem broadcast_status_skips_unresolved:
  "dict_keys (status_listeners client_ghost) = [''ghost'']
   \<and> get_agent (registry client_ghost) ''ghost'' = None
   \<and> sent w0 = []
   \<and> sent (snd (broadcast_status env0 client_ghost [(''status'', ''idle'')] w0)) = []"
  by (simp add: client_ghost_def client_empty_def dict_keys_def w0_def broadcast_status_def now_def
      send_status_update_def get_agent_def registry_remote1_def)

text \<open>
  C5, amended. For every subscriber set and status payload, \<open>broadcast_status\<close> completes
  without raising, and the envelopes it hands to the transport are exactly one for each
  subscriber that the directory resolves, in the order of the subscriber set, all holding
  the same status envelope; a subscriber the directory does not resolve is skipped. This
  holds whatever the transport does, so a delivery that fails for one subscriber does not
  prevent the attempts for the remaining ones.
\<close>

theorem broadcast_status_attempts_resolved:
  "fst (broadcast_status e c status w) = Inr ()
   \<and> sent (snd (broadcast_status e c status w)) =
       sent w @ map (\<lambda>a. (a, status_update_message c status (clk e (ticks w))))
                    (resolved_listeners c)"
  by (simp add: broadcast_status_def now_def broadcast_loop_returns broadcast_loop_sent
      resolved_listeners_def)

theorem broadcast_status_attempts_resolved_witness:
  "dict_keys (status_listeners client_three) = [''remote1'', ''ghost'', ''remoteA'']
   \<and> resolved_listeners client_three = [card_remote1, card_remoteA]
   \<and> fails env_refusing card_remote1 (status_update_message client_three [(''status'', ''idle'')] 0)
       = Some (OtherError ''connection refused'')
   \<and> fst (broadcast_status env_refusing client_three [(''status'', ''idle'')] w0) = Inr ()
   \<and> sent (snd (broadcast_status env_refusing client_three [(''status'', ''idle'')] w0))
       = [(card_remote1, status_update_message client_three [(''status'', ''idle'')] 0),
          (card_remoteA, status_update_message client_three [(''status'', ''idle'')] 0)]
   \<and> stdout (snd (broadcast_status env_refusing client_three [(''status'', ''idle'')] w0))
       = [''Failed to send status to remote1: connection refused'']"
proof -
  have keys: "dict_keys (status_listeners client_three) = [''remote1'', ''ghost'', ''remoteA'']"
    by (simp add: client_three_def dict_keys_def)
  have res: "resolved_listeners client_three = [card_remote1, card_remoteA]"
    by (simp add: resolved_listeners_def keys) (simp add: client_three_def registry_two_def get_agent_def)
  have refused: "fails env_refusing card_remote1
      (status_update_message client_three [(''status'', ''idle'')] 0)
        = Some (OtherError ''connection refused'')"
    by (simp add: env_refusing_def card_remote1_def)
  have clock: "clk env_refusing (ticks w0) = 0"
    by (simp add: env_refusing_def env0_def w0_def)
  have a: "fst (broadcast_status env_refusing client_three [(''status'', ''idle'')] w0) = Inr ()
     \<and> sent (snd (broadcast_status env_refusing client_three [(''status'', ''idle'')] w0))
       = [(card_remote1, status_update_message client_three [(''status'', ''idle'')] 0),
          (card_remoteA, status_update_message client_three [(''status'', ''idle'')] 0)]"
    using broadcast_status_attempts_resolved
      [of env_refusing client_three "[(''status'', ''idle'')]" w0]
    by (simp add: res clock) (simp add: w0_def)
  have out: "stdout (snd (broadcast_status env_refusing client_three [(''status'', ''idle'')] w0))
       = [''Failed to send status to remote1: connection refused'']"
    by (simp add: broadcast_status_def now_def dict_keys_def send_status_update_def send_message_def
        Let_def print_def w0_def client_three_def client_empty_def registry_two_def get_agent_def
        env_refusing_def env0_def card_remote1_def card_remoteA_def status_update_message_def)
  from keys res refused a out show ?thesis by blast
qed

section \<open>The history of a conversation\<close>

lemma log_message_history:
  "history_of (fst (log_message e cm u role content w)) u =
     history_of cm u @ [\<lparr>entry_role = role, entry_content = content, entry_timestamp = clk e (ticks w)\<rparr>]"
  by (simp add: log_message_def history_of_def now_def Let_def dict_get_set_same dict_mem_def
      split: option.splits prod.splits)

lemma log_message_state:
  "dict_mem u (conversation_state (fst (log_message e cm u role content w)))
     = dict_mem u (conversation_state cm)"
  by (simp add: log_message_def now_def Let_def dict_get_set_same dict_mem_def
      split: option.splits prod.splits)

lemma log_message_router: "router (fst (log_message e cm u role content w)) = router cm"
  by (simp add: log_message_def now_def Let_def split: option.splits prod.splits)

lemma initialize_conversation_effect:
  "history_of (fst (initialize_conversation e cm u w)) u = []
   \<and> dict_mem u (conversation_state (fst (initialize_conversation e cm u w)))
   \<and> router (fst (initialize_conversation e cm u w)) = router cm"
  by (simp add: initialize_conversation_def history_of_def now_def Let_def dict_get_set_same
      dict_mem_def split: prod.splits)

lemma analyze_user_message_history:
  "task_conversation_history (fst (analyze_user_message e cm u m w)) = slice_from (history_of cm u) (- 5)"
  by (simp add: analyze_user_message_def now_def Let_def split: prod.splits)

lemma slice_from_map: "map f (slice_from xs i) = slice_from (map f xs) i"
  by (simp add: slice_from_def Let_def drop_map)

lemma process_user_input_appends:
  "\<exists>r cm' w' tsk v.
      process_user_input e cm u m w = (Inr r, cm', w')
    \<and> route_task e (router cm) tsk v = (Inr r, snd (route_task e (router cm) tsk v))
    \<and> map said (task_conversation_history tsk) = slice_from (map said (prior cm u) @ [(''user'', m)]) (- 5)
    \<and> map said (history_of cm' u) = map said (prior cm u) @ [(''user'', m), (''assistant'', r)]
    \<and> dict_mem u (conversation_state cm')
    \<and> router cm' = router cm"
proof -
  obtain cm1 w1 where init: "(if \<not> dict_mem u (conversation_state cm)
                       then initialize_conversation e cm u w else (cm, w)) = (cm1, w1)"
    by (cases "if \<not> dict_mem u (conversation_state cm)
                       then initialize_conversation e cm u w else (cm, w)")
  have cm1: "history_of cm1 u = prior cm u \<and> dict_mem u (conversation_state cm1) \<and> router cm1 = router cm"
  proof (cases "dict_mem u (conversation_state cm)")
    case True
    with init show ?thesis by (simp add: prior_def)
  next
    case False
    with init have "cm1 = fst (initialize_conversation e cm u w)" by simp
    with False show ?thesis by (simp add: prior_def initialize_conversation_effect)
  qed
  obtain cm2 w2 where log1: "log_message e cm1 u ''user'' m w1 = (cm2, w2)"
    by (cases "log_message e cm1 u ''user'' m w1")
  have cm2: "map said (history_of cm2 u) = map said (prior cm u) @ [(''user'', m)]
             \<and> dict_mem u (conversation_state cm2) \<and> router cm2 = router cm"
    using log_message_history [of e cm1 u "''user''" m w1]
      log_message_state [of u e cm1 "''user''" m w1]
      log_message_router [of e cm1 u "''user''" m w1] log1 cm1
    by (simp add: said_def)
  obtain tsk w3 where an: "analyze_user_message e cm2 u m w2 = (tsk, w3)"
    by (cases "analyze_user_message e cm2 u m w2")
  have tsk: "map said (task_conversation_history tsk) = slice_from (map said (prior cm u) @ [(''user'', m)]) (- 5)"
    using analyze_user_message_history [of e cm2 u m w2] an cm2 by (simp add: slice_from_map)
  obtain r w4 where rt: "route_task e (router cm2) tsk w3 = (Inr r, w4)"
    using route_task_returns [of e "router cm2" tsk w3] by blast
  obtain cm3 w5 where log2: "log_message e cm2 u ''assistant'' r w4 = (cm3, w5)"
    by (cases "log_message e cm2 u ''assistant'' r w4")
  have cm3: "map said (history_of cm3 u) = map said (prior cm u) @ [(''user'', m), (''assistant'', r)]
             \<and> dict_mem u (conversation_state cm3) \<and> router cm3 = router cm"
    using log_message_history [of e cm2 u "''assistant''" r w4]
      log_message_state [of u e cm2 "''assistant''" r w4]
      log_message_router [of e cm2 u "''assistant''" r w4] log2 cm2
    by (simp add: said_def)
  have "process_user_input e cm u m w = (Inr r, cm3, w5)"
    using init log1 an rt log2 by (simp add: process_user_input_def)
  moreover have "route_task e (router cm) tsk w3 = (Inr r, snd (route_task e (router cm) tsk w3))"
    using rt cm2 by simp
  ultimately show ?thesis using tsk cm3 by blast
qed

text \<open>
  C7, as stated, fails. A user who already has a session and a history keeps the earlier
  entries: \<open>_log_message\<close> appends and nothing resets the history of a known user. After
  two calls for a user whose history holds one exchange, the history has six entries, the
  earlier two in front of the four of the claim.
\<close>

theorem process_user_input_keeps_earlier_entries:
  "map said (get_conversation_history cm_returning ''alice'' None)
       = [(''user'', ''hello''), (''assistant'', ''hi'')]
   \<and> fst (process_user_input env0 cm_returning ''alice'' ''good morning'' w0)
       = Inr ''No suitable agent found for task type: general''
   \<and> fst (process_user_input env0
             (fst (snd (process_user_input env0 cm_returning ''alice'' ''good morning'' w0)))
             ''alice'' ''thanks''
             (snd (snd (process_user_input env0 cm_returning ''alice'' ''good morning'' w0))))
       = Inr ''No suitable agent found for task type: general''
   \<and> map said (get_conversation_history
         (fst (snd (process_user_input env0
            (fst (snd (process_user_input env0 cm_returning ''alice'' ''good morning'' w0)))
            ''alice'' ''thanks''
            (snd (snd (process_user_input env0 cm_returning ''alice'' ''good morning'' w0))))))
         ''alice'' None)
       = [(''user'', ''hello''), (''assistant'', ''hi''),
          (''user'', ''good morning''),
          (''assistant'', ''No suitable agent found for task type: general''),
          (''user'', ''thanks''),
          (''assistant'', ''No suitable agent found for task type: general'')]"
  by (simp add: process_user_input_def log_message_def analyze_user_message_def route_task_def
      select_best_agent_def get_conversation_history_def history_of_def slice_from_def now_def
      dict_mem_def lower_char_def Let_def said_def cm_returning_def router_empty_def
      client_empty_def registry_empty_def session_alice_def entry_hello_def entry_answer_def
      env0_def w0_def)

text \<open>
  C7, amended. For a user whose history holds no entry when the first call starts (a user
  without a session, or with a session and an empty history), two calls of
  \<open>process_user_input\<close> in sequence, with the messages \<open>m1\<close> and \<open>m2\<close>, both return a
  response, \<open>r1\<close> and \<open>r2\<close>, and the history of the user then holds exactly the four
  entries user \<open>m1\<close>, assistant \<open>r1\<close>, user \<open>m2\<close>, assistant \<open>r2\<close>, in that order. In
  each call the user entry is appended before routing and the assistant entry after it:
  the response is what \<open>route_task\<close> returns for a task whose history window ends with
  the user entry of that call and does not hold the response yet.
\<close>

theorem process_user_input_history_order:
  assumes "prior cm u = []"
  shows "\<exists>r1 cm1 w1 r2 cm2 w2 t1 v1 t2 v2.
      process_user_input e cm u m1 w = (Inr r1, cm1, w1)
    \<and> process_user_input e cm1 u m2 w1 = (Inr r2, cm2, w2)
    \<and> map said (get_conversation_history cm2 u None)
        = [(''user'', m1), (''assistant'', r1), (''user'', m2), (''assistant'', r2)]
    \<and> fst (route_task e (router cm) t1 v1) = Inr r1
    \<and> map said (task_conversation_history t1) = [(''user'', m1)]
    \<and> fst (route_task e (router cm) t2 v2) = Inr r2
    \<and> map said (task_conversation_history t2) = [(''user'', m1), (''assistant'', r1), (''user'', m2)]"
proof -
  obtain r1 cm1 w1 t1 v1 where one:
    "process_user_input e cm u m1 w = (Inr r1, cm1, w1)"
    "route_task e (router cm) t1 v1 = (Inr r1, snd (route_task e (router cm) t1 v1))"
    "map said (task_conversation_history t1) = slice_from (map said (prior cm u) @ [(''user'', m1)]) (- 5)"
    "map said (history_of cm1 u) = map said (prior cm u) @ [(''user'', m1), (''assistant'', r1)]"
    "dict_mem u (conversation_state cm1)" "router cm1 = router cm"
    using process_user_input_appends [of e cm u m1 w] by blast
  obtain r2 cm2 w2 t2 v2 where two:
    "process_user_input e cm1 u m2 w1 = (Inr r2, cm2, w2)"
    "route_task e (router cm1) t2 v2 = (Inr r2, snd (route_task e (router cm1) t2 v2))"
    "map said (task_conversation_history t2) = slice_from (map said (prior cm1 u) @ [(''user'', m2)]) (- 5)"
    "map said (history_of cm2 u) = map said (prior cm1 u) @ [(''user'', m2), (''assistant'', r2)]"
    using process_user_input_appends [of e cm1 u m2 w1] by blast
  note p0 = assms
  have p1: "prior cm1 u = history_of cm1 u" using one(5) by (simp add: prior_def)
  have h: "map said (get_conversation_history cm2 u None)
        = [(''user'', m1), (''assistant'', r1), (''user'', m2), (''assistant'', r2)]"
    using two(4) one(4) by (simp add: p0 p1 get_conversation_history_def)
  have s1: "map said (task_conversation_history t1) = [(''user'', m1)]"
    using one(3) by (simp add: p0 slice_from_def)
  have s2: "map said (task_conversation_history t2) = [(''user'', m1), (''assistant'', r1), (''user'', m2)]"
    using two(3) one(4) by (simp add: p0 p1 slice_from_def)
  have f1: "fst (route_task e (router cm) t1 v1) = Inr r1" using one(2) by (metis fst_conv)
  have f2: "fst (route_task e (router cm) t2 v2) = Inr r2" using two(2) one(6) by (metis fst_conv)
  show ?thesis
    by (intro exI conjI) (rule one(1), rule two(1), rule h, rule f1, rule s1, rule f2, rule s2)
qed

theorem process_user_input_history_order_witness:
  "prior cm_fresh ''bob'' = []
   \<and> fst (process_user_input env0 cm_fresh ''bob'' ''hello'' w0)
       = Inr ''Task completed by echo: user:hello;''
   \<and> fst (process_user_input env0 (fst (snd (process_user_input env0 cm_fresh ''bob'' ''hello'' w0)))
             ''bob'' ''thanks'' (snd (snd (process_user_input env0 cm_fresh ''bob'' ''hello'' w0))))
       = Inr ''Task completed by echo: user:hello;assistant:Task completed by echo: user:hello;;user:thanks;''
   \<and> map said (get_conversation_history
         (fst (snd (process_user_input env0
            (fst (snd (process_user_input env0 cm_fresh ''bob'' ''hello'' w0)))
            ''bob'' ''thanks'' (snd (snd (process_user_input env0 cm_fresh ''bob'' ''hello'' w0))))))
         ''bob'' None)
       = [(''user'', ''hello''),
          (''assistant'', ''Task completed by echo: user:hello;''),
          (''user'', ''thanks''),
          (''assistant'',
           ''Task completed by echo: user:hello;assistant:Task completed by echo: user:hello;;user:thanks;'')]
   \<and> dict_mem ''bob'' (conversation_state cm_preferences)
   \<and> prior cm_preferences ''bob'' = []
   \<and> map said (get_conversation_history
         (fst (snd (process_user_input env0
            (fst (snd (process_user_input env0 cm_preferences ''bob'' ''hello'' w0)))
            ''bob'' ''thanks'' (snd (snd (process_user_input env0 cm_preferences ''bob'' ''hello'' w0))))))
         ''bob'' None)
       = [(''user'', ''hello''),
          (''assistant'', ''Task completed by echo: user:hello;''),
          (''user'', ''thanks''),
          (''assistant'',
           ''Task completed by echo: user:hello;assistant:Task completed by echo: user:hello;;user:thanks;'')]"
proof -
  have fresh: "prior cm_fresh ''bob'' = []"
    by (simp add: prior_def cm_fresh_def dict_mem_def)
  obtain r1 cm1 w1 r2 cm2 w2 where
    p1: "process_user_input env0 cm_fresh ''bob'' ''hello'' w0 = (Inr r1, cm1, w1)" and
    p2: "process_user_input env0 cm1 ''bob'' ''thanks'' w1 = (Inr r2, cm2, w2)" and
    h: "map said (get_conversation_history cm2 ''bob'' None)
          = [(''user'', ''hello''), (''assistant'', r1), (''user'', ''thanks''), (''assistant'', r2)]"
  proof -
    from process_user_input_history_order [OF fresh, of env0 "''hello''" w0 "''thanks''"]
    show ?thesis by (elim exE conjE) (rule that)
  qed
  have e1: "fst (process_user_input env0 cm_fresh ''bob'' ''hello'' w0)
       = Inr ''Task completed by echo: user:hello;''"
    by (simp add: process_user_input_def initialize_conversation_def log_message_def
        analyze_user_message_def route_task_def select_best_agent_def execute_task_with_agent_def
        agent_has_capabilities_def history_of_def slice_from_def now_def print_def dict_mem_def
        lower_char_def Let_def cm_fresh_def env0_def w0_def agent_echo_def
        client_empty_def registry_empty_def)
  have e2: "fst (process_user_input env0 (fst (snd (process_user_input env0 cm_fresh ''bob'' ''hello'' w0)))
             ''bob'' ''thanks'' (snd (snd (process_user_input env0 cm_fresh ''bob'' ''hello'' w0))))
       = Inr ''Task completed by echo: user:hello;assistant:Task completed by echo: user:hello;;user:thanks;''"
    by (simp add: process_user_input_def initialize_conversation_def log_message_def
        analyze_user_message_def route_task_def select_best_agent_def execute_task_with_agent_def
        agent_has_capabilities_def history_of_def slice_from_def now_def print_def dict_mem_def
        lower_char_def Let_def cm_fresh_def env0_def w0_def agent_echo_def
        client_empty_def registry_empty_def)
  have r1: "r1 = ''Task completed by echo: user:hello;''"
    using e1 by (simp add: p1)
  have r2: "r2 = ''Task completed by echo: user:hello;assistant:Task completed by echo: user:hello;;user:thanks;''"
    using e2 by (simp add: p1 p2)
  have hist: "map said (get_conversation_history
         (fst (snd (process_user_input env0
            (fst (snd (process_user_input env0 cm_fresh ''bob'' ''hello'' w0)))
            ''bob'' ''thanks'' (snd (snd (process_user_input env0 cm_fresh ''bob'' ''hello'' w0))))))
         ''bob'' None)
       = [(''user'', ''hello''), (''assistant'', r1), (''user'', ''thanks''), (''assistant'', r2)]"
    using h by (simp add: p1 p2)
  have session: "dict_mem ''bob'' (conversation_state cm_preferences)"
    by (simp add: cm_preferences_def dict_mem_def)
  have empty: "prior cm_preferences ''bob'' = []"
    by (simp add: prior_def cm_preferences_def history_of_def dict_mem_def)
  obtain q1 dm1 x1 q2 dm2 x2 where
    s1: "process_user_input env0 cm_preferences ''bob'' ''hello'' w0 = (Inr q1, dm1, x1)" and
    s2: "process_user_input env0 dm1 ''bob'' ''thanks'' x1 = (Inr q2, dm2, x2)" and
    g: "map said (get_conversation_history dm2 ''bob'' None)
          = [(''user'', ''hello''), (''assistant'', q1), (''user'', ''thanks''), (''assistant'', q2)]"
  proof -
    from process_user_input_history_order [OF empty, of env0 "''hello''" w0 "''thanks''"]
    show ?thesis by (elim exE conjE) (rule that)
  qed
  have d1: "fst (process_user_input env0 cm_preferences ''bob'' ''hello'' w0)
       = Inr ''Task completed by echo: user:hello;''"
    by (simp add: process_user_input_def initialize_conversation_def log_message_def
        analyze_user_message_def route_task_def select_best_agent_def execute_task_with_agent_def
        agent_has_capabilities_def history_of_def slice_from_def now_def print_def dict_mem_def
        lower_char_def Let_def cm_fresh_def env0_def w0_def agent_echo_def
        client_empty_def registry_empty_def cm_preferences_def session_alice_def)
  have d2: "fst (process_user_input env0
             (fst (snd (process_user_input env0 cm_preferences ''bob'' ''hello'' w0)))
             ''bob'' ''thanks'' (snd (snd (process_user_input env0 cm_preferences ''bob'' ''hello'' w0))))
       = Inr ''Task completed by echo: user:hello;assistant:Task completed by echo: user:hello;;user:thanks;''"
    by (simp add: process_user_input_def initialize_conversation_def log_message_def
        analyze_user_message_def route_task_def select_best_agent_def execute_task_with_agent_def
        agent_has_capabilities_def history_of_def slice_from_def now_def print_def dict_mem_def
        lower_char_def Let_def cm_fresh_def env0_def w0_def agent_echo_def
        client_empty_def registry_empty_def cm_preferences_def session_alice_def)
  have q1: "q1 = ''Task completed by echo: user:hello;''"
    using d1 by (simp add: s1)
  have q2: "q2 = ''Task completed by echo: user:hello;assistant:Task completed by echo: user:hello;;user:thanks;''"
    using d2 by (simp add: s1 s2)
  have hist2: "map said (get_conversation_history
         (fst (snd (process_user_input env0
            (fst (snd (process_user_input env0 cm_preferences ''bob'' ''hello'' w0)))
            ''bob'' ''thanks'' (snd (snd (process_user_input env0 cm_preferences ''bob'' ''hello'' w0))))))
         ''bob'' None)
       = [(''user'', ''hello''), (''assistant'', q1), (''user'', ''thanks''), (''assistant'', q2)]"
    using g by (simp add: s1 s2)
  from fresh e1 e2 hist session empty hist2 show ?thesis by (simp add: r1 r2 q1 q2)
qed

end
